theory Spec2Isabelle
  imports Complex_Main "HOL-Library.Log_Nat"
begin

section \<open>Python values\<close>

subsection \<open>Floats: IEEE 754 binary64\<close>

text \<open>
  A Python float is a binary64 number. A finite one is kept as its exact rational value;
  the sign of a zero is not kept (Python's \<open>==\<close> does not see it, and neither subtraction
  nor \<open>round\<close> lets it influence a non-zero result).
\<close>

datatype pyfloat = Fin rat | PInf | NInf | NaN

text \<open>\<open>ilog2 x\<close> is the binary exponent of \<open>x \<noteq> 0\<close>: \<open>2 ^ e \<le> \<bar>x\<bar> < 2 ^ (e + 1)\<close>.\<close>

definition ilog2 :: "rat \<Rightarrow> int" where
  "ilog2 x = (if 1 \<le> \<bar>x\<bar> then bitlen \<lfloor>\<bar>x\<bar>\<rfloor> - 1 else - bitlen (\<lceil>1 / \<bar>x\<bar>\<rceil> - 1))"

text \<open>Rounding to the nearest integer, ties to the even one.\<close>

definition round_half_even :: "rat \<Rightarrow> int" where
  "round_half_even x =
     (let f = \<lfloor>x\<rfloor>; d = x - of_int f
      in if d < 1 / 2 then f else if 1 / 2 < d then f + 1 else if even f then f else f + 1)"

text \<open>
  \<open>fl x\<close> is the binary64 number nearest to the rational \<open>x\<close> (round to nearest, ties to
  even): 53 significant bits, the smallest exponent of a normal number is \<open>-1022\<close>,
  below it the spacing stays \<open>2 ^ -1074\<close>, and a result of magnitude \<open>2 ^ 1024\<close> is an
  infinity. It is what Python does with a float literal, with the exact result of an
  arithmetic operation, and with an int that meets a float.
\<close>

definition fl :: "rat \<Rightarrow> pyfloat" where
  "fl x =
     (if x = 0 then Fin 0
      else let q = max (ilog2 x) (- 1022) - 52;
               m = round_half_even (\<bar>x\<bar> / 2 powi q);
               r = of_int m * 2 powi q
           in if 2 ^ 1024 \<le> r then (if 0 < x then PInf else NInf)
              else Fin (if 0 < x then r else - r))"

text \<open>Float subtraction \<open>a - b\<close>.\<close>

fun fsub :: "pyfloat \<Rightarrow> pyfloat \<Rightarrow> pyfloat" where
  "fsub NaN _ = NaN"
| "fsub _ NaN = NaN"
| "fsub (Fin a) (Fin b) = fl (a - b)"
| "fsub (Fin a) PInf = NInf"
| "fsub (Fin a) NInf = PInf"
| "fsub PInf PInf = NaN"
| "fsub PInf _ = PInf"
| "fsub NInf NInf = NaN"
| "fsub NInf _ = NInf"

text \<open>The largest finite float.\<close>

definition max_double :: rat where
  "max_double = 2 ^ 1024 - 2 ^ 971"

subsection \<open>Parsed JSON\<close>

text \<open>
  What \<open>response.json()\<close> gives: \<open>None\<close>, a bool, an int, a float, a str, a list or a
  dict with str keys. A dict is an association list in insertion order; the first binding
  of a key is the one a lookup sees.
\<close>

datatype json =
    JNull
  | JBool bool
  | JInt int
  | JFloat pyfloat
  | JStr string
  | JArr "json list"
  | JObj "(string \<times> json) list"

subsection \<open>Exceptions\<close>

text \<open>
  Each exception carries the text that \<open>str(e)\<close> gives. \<open>RequestException\<close> stands for
  \<open>requests.exceptions.RequestException\<close> and all its subclasses (connection error,
  timeout, HTTP error status, undecodable body).
\<close>

datatype pyexn =
    RequestException string
  | ValueError string
  | TypeError string
  | AttributeError string
  | IndexError string
  | KeyError string
  | OverflowError string

fun str_exn :: "pyexn \<Rightarrow> string" where
  "str_exn (RequestException m) = m"
| "str_exn (ValueError m) = m"
| "str_exn (TypeError m) = m"
| "str_exn (AttributeError m) = m"
| "str_exn (IndexError m) = m"
| "str_exn (KeyError m) = m"
| "str_exn (OverflowError m) = m"

datatype http_exception = HTTPException (status_code: nat) (detail: string)

definition ebind :: "'e + 'a \<Rightarrow> ('a \<Rightarrow> 'e + 'b) \<Rightarrow> 'e + 'b" where
  "ebind m f = (case m of Inl e \<Rightarrow> Inl e | Inr x \<Rightarrow> f x)"

subsection \<open>Built-in operations\<close>

definition quoted :: "string \<Rightarrow> string" where
  "quoted s = CHR 0x27 # s @ [CHR 0x27]"

fun type_name :: "json \<Rightarrow> string" where
  "type_name JNull = ''NoneType''"
| "type_name (JBool _) = ''bool''"
| "type_name (JInt _) = ''int''"
| "type_name (JFloat _) = ''float''"
| "type_name (JStr _) = ''str''"
| "type_name (JArr _) = ''list''"
| "type_name (JObj _) = ''dict''"

text \<open>\<open>v.get(k, d)\<close>: only a dict has the method.\<close>

fun get_method :: "json \<Rightarrow> string \<Rightarrow> json \<Rightarrow> pyexn + json" where
  "get_method (JObj kvs) k d = Inr (case map_of kvs k of None \<Rightarrow> d | Some v \<Rightarrow> v)"
| "get_method v k d =
     Inl (AttributeError (quoted (type_name v) @ '' object has no attribute '' @ quoted ''get''))"

text \<open>\<open>v[0]\<close>. The keys of a parsed dict are strings, so \<open>0\<close> is never one of them.\<close>

fun getitem0 :: "json \<Rightarrow> pyexn + json" where
  "getitem0 (JArr []) = Inl (IndexError ''list index out of range'')"
| "getitem0 (JArr (x # xs)) = Inr x"
| "getitem0 (JStr []) = Inl (IndexError ''string index out of range'')"
| "getitem0 (JStr (c # cs)) = Inr (JStr [c])"
| "getitem0 (JObj kvs) = Inl (KeyError ''0'')"
| "getitem0 v = Inl (TypeError (quoted (type_name v) @ '' object is not subscriptable''))"

text \<open>
  \<open>v[k]\<close> for a str \<open>k\<close>. The text of a \<open>KeyError\<close> is the \<open>repr\<close> of the key: the key
  between single quotes, for the keys used here.
\<close>

fun getitem_key :: "json \<Rightarrow> string \<Rightarrow> pyexn + json" where
  "getitem_key (JObj kvs) k =
     (case map_of kvs k of None \<Rightarrow> Inl (KeyError (quoted k)) | Some v \<Rightarrow> Inr v)"
| "getitem_key (JArr xs) k = Inl (TypeError ''list indices must be integers or slices, not str'')"
| "getitem_key (JStr s) k = Inl (TypeError (''string indices must be integers, not '' @ quoted ''str''))"
| "getitem_key v k = Inl (TypeError (quoted (type_name v) @ '' object is not subscriptable''))"

text \<open>\<open>v[k] = x\<close> for a str \<open>k\<close>: a dict replaces the binding in place or appends it.\<close>

fun dict_update :: "string \<Rightarrow> json \<Rightarrow> (string \<times> json) list \<Rightarrow> (string \<times> json) list" where
  "dict_update k x [] = [(k, x)]"
| "dict_update k x ((k', v) # kvs) =
     (if k' = k then (k, x) # kvs else (k', v) # dict_update k x kvs)"

fun setitem_key :: "json \<Rightarrow> string \<Rightarrow> json \<Rightarrow> pyexn + json" where
  "setitem_key (JObj kvs) k x = Inr (JObj (dict_update k x kvs))"
| "setitem_key (JArr xs) k x = Inl (TypeError ''list indices must be integers or slices, not str'')"
| "setitem_key v k x =
     Inl (TypeError (quoted (type_name v) @ '' object does not support item assignment''))"

fun py_len :: "json \<Rightarrow> pyexn + nat" where
  "py_len (JStr s) = Inr (length s)"
| "py_len (JArr xs) = Inr (length xs)"
| "py_len (JObj kvs) = Inr (length kvs)"
| "py_len v = Inl (TypeError (''object of type '' @ quoted (type_name v) @ '' has no len()''))"

text \<open>Truth value of a value, as \<open>not v\<close> tests it.\<close>

fun truthy :: "json \<Rightarrow> bool" where
  "truthy JNull = False"
| "truthy (JBool b) = b"
| "truthy (JInt i) = (i \<noteq> 0)"
| "truthy (JFloat x) = (x \<noteq> Fin 0)"
| "truthy (JStr s) = (s \<noteq> [])"
| "truthy (JArr xs) = (xs \<noteq> [])"
| "truthy (JObj kvs) = (kvs \<noteq> [])"

text \<open>
  \<open>v - c\<close> for a float \<open>c\<close>: a float is subtracted as it is, an int or a bool is first
  converted to the nearest float (an int beyond the range of floats raises), and no other
  type has the operation.
\<close>

definition float_of_int :: "int \<Rightarrow> pyexn + pyfloat" where
  "float_of_int i =
     (case fl (of_int i) of
        Fin r \<Rightarrow> Inr (Fin r)
      | _ \<Rightarrow> Inl (OverflowError ''int too large to convert to float''))"

fun sub_float :: "json \<Rightarrow> pyfloat \<Rightarrow> pyexn + pyfloat" where
  "sub_float (JFloat x) c = Inr (fsub x c)"
| "sub_float (JInt i) c = ebind (float_of_int i) (\<lambda>x. Inr (fsub x c))"
| "sub_float (JBool b) c = Inr (fsub (Fin (if b then 1 else 0)) c)"
| "sub_float v c =
     Inl (TypeError (''unsupported operand type(s) for -: '' @ quoted (type_name v)
                      @ '' and '' @ quoted ''float''))"

text \<open>
  \<open>round(x, n)\<close> for a float \<open>x\<close> and \<open>n \<ge> 0\<close>: an infinity or a NaN is returned as it
  is; a finite \<open>x\<close> is rounded, from its exact value, to \<open>n\<close> decimals with ties to even,
  and the decimal is converted to the nearest float. If that conversion leaves the range
  of floats, \<open>round\<close> raises.
\<close>

definition py_round :: "pyfloat \<Rightarrow> nat \<Rightarrow> pyexn + pyfloat" where
  "py_round x n =
     (case x of
        Fin r \<Rightarrow>
          (case fl (of_int (round_half_even (r * 10 ^ n)) / 10 ^ n) of
             Fin y \<Rightarrow> Inr (Fin y)
           | _ \<Rightarrow> Inl (OverflowError ''rounded value too large to represent''))
      | _ \<Rightarrow> Inr x)"

section \<open>The service\<close>

subsection \<open>Unit converter\<close>

text \<open>
  \<open>convert_kelvin_to_celsius(value)\<close> is \<open>round(value - 273.15, 1)\<close>; the literal
  \<open>273.15\<close> is the float nearest to it. The argument is whatever the payload holds.
\<close>

definition convert_kelvin_to_celsius :: "json \<Rightarrow> pyexn + pyfloat" where
  "convert_kelvin_to_celsius v = ebind (sub_float v (fl (27315 / 100))) (\<lambda>d. py_round d 1)"

subsection \<open>Geocoding client\<close>

text \<open>
  The geocoding provider is a parameter \<open>geo\<close>: for a city, what \<open>requests.get\<close>,
  \<open>raise_for_status\<close> and \<open>response.json()\<close> end in, an exception or the parsed body.
  Log lines are not modelled.
\<close>

definition not_found :: "json \<Rightarrow> pyexn + bool" where
  "not_found data =
     ebind (get_method data ''results'' JNull) (\<lambda>r.
       if \<not> truthy r then Inr True
       else ebind (getitem_key data ''results'') (\<lambda>rs.
            ebind (py_len rs) (\<lambda>n. Inr (n = 0))))"

definition geocoding_body :: "(string \<Rightarrow> pyexn + json) \<Rightarrow> string \<Rightarrow> pyexn + json \<times> json" where
  "geocoding_body geo city =
     ebind (geo city) (\<lambda>data.
     ebind (not_found data) (\<lambda>nf.
       if nf then Inl (ValueError (''City '' @ quoted city @ '' not found in geocoding results''))
       else
         ebind (getitem_key data ''results'') (\<lambda>rs.
         ebind (getitem0 rs) (\<lambda>first.
         ebind (getitem_key first ''lon'') (\<lambda>lon.
         ebind (getitem_key data ''results'') (\<lambda>rs'.
         ebind (getitem0 rs') (\<lambda>first'.
         ebind (getitem_key first' ''lat'') (\<lambda>lat.
         Inr (lat, lon)))))))))"

fun geocoding_handler :: "pyexn \<Rightarrow> http_exception" where
  "geocoding_handler (RequestException m) =
     HTTPException 500 (''Geocoding API error: '' @ m @ ''. Check GEOCODING_API_KEY.'')"
| "geocoding_handler e = HTTPException 500 (str_exn e)"

definition convert_cityname_to_coordinate ::
    "(string \<Rightarrow> pyexn + json) \<Rightarrow> string \<Rightarrow> http_exception + json \<times> json" where
  "convert_cityname_to_coordinate geo city =
     (case geocoding_body geo city of
        Inl e \<Rightarrow> Inl (geocoding_handler e)
      | Inr c \<Rightarrow> Inr c)"

subsection \<open>Weather client\<close>

text \<open>The weather provider is a parameter \<open>wx\<close> in the same way, for a latitude and a longitude.\<close>

fun weather_handler :: "pyexn \<Rightarrow> http_exception" where
  "weather_handler (RequestException m) =
     HTTPException 500 (''Weather API error: '' @ m @ ''. Check OPENWEATHER_API_KEY.'')"
| "weather_handler e = HTTPException 500 (str_exn e)"

definition weather_info ::
    "(json \<Rightarrow> json \<Rightarrow> pyexn + json) \<Rightarrow> json \<Rightarrow> json \<Rightarrow> http_exception + json" where
  "weather_info wx lat lon =
     (case wx lat lon of
        Inl e \<Rightarrow> Inl (weather_handler e)
      | Inr data \<Rightarrow> Inr data)"

subsection \<open>Response formatter\<close>

text \<open>
  The nested dicts of the result, each with its lookups in the order of the source.
\<close>

definition conditions_of :: "json \<Rightarrow> pyexn + json" where
  "conditions_of weather =
     ebind (get_method weather ''main'' JNull) (\<lambda>label.
     ebind (get_method weather ''description'' JNull) (\<lambda>description.
     ebind (get_method weather ''icon'' JNull) (\<lambda>icon.
     Inr (JObj [(''label'', label), (''description'', description), (''icon'', icon)]))))"

definition temperature_field :: "json \<Rightarrow> string \<Rightarrow> pyexn + json" where
  "temperature_field main k =
     ebind (get_method main k (JInt 0)) (\<lambda>v.
     ebind (convert_kelvin_to_celsius v) (\<lambda>c. Inr (JFloat c)))"

definition temperature_of :: "json \<Rightarrow> pyexn + json" where
  "temperature_of main =
     ebind (temperature_field main ''temp'') (\<lambda>current_c.
     ebind (temperature_field main ''feels_like'') (\<lambda>feels_like_c.
     ebind (temperature_field main ''temp_min'') (\<lambda>min_c.
     ebind (temperature_field main ''temp_max'') (\<lambda>max_c.
     Inr (JObj [(''current_c'', current_c), (''feels_like_c'', feels_like_c),
                (''min_c'', min_c), (''max_c'', max_c)])))))"

definition wind_of :: "json \<Rightarrow> pyexn + json" where
  "wind_of wind =
     ebind (get_method wind ''speed'' JNull) (\<lambda>speed_mps.
     ebind (get_method wind ''deg'' JNull) (\<lambda>direction_deg.
     ebind (get_method wind ''gust'' JNull) (\<lambda>gust_mps.
     Inr (JObj [(''speed_mps'', speed_mps), (''direction_deg'', direction_deg),
                (''gust_mps'', gust_mps)]))))"

definition formatter_body :: "json \<Rightarrow> pyexn + json" where
  "formatter_body payload =
     ebind (get_method payload ''weather'' (JArr [JObj []])) (\<lambda>ws.
     ebind (getitem0 ws) (\<lambda>weather.
     ebind (get_method payload ''main'' (JObj [])) (\<lambda>main.
     ebind (get_method payload ''wind'' (JObj [])) (\<lambda>wind.
     ebind (get_method payload ''name'' JNull) (\<lambda>city.
     ebind (get_method payload ''sys'' (JObj [])) (\<lambda>sys.
     ebind (get_method sys ''country'' JNull) (\<lambda>country.
     ebind (get_method payload ''coord'' JNull) (\<lambda>coordinates.
     ebind (conditions_of weather) (\<lambda>conditions.
     ebind (temperature_of main) (\<lambda>temperature.
     ebind (get_method main ''humidity'' JNull) (\<lambda>humidity.
     ebind (get_method main ''pressure'' JNull) (\<lambda>pressure.
     ebind (wind_of wind) (\<lambda>wind_out.
     ebind (get_method payload ''visibility'' JNull) (\<lambda>visibility_m.
     ebind (get_method payload ''clouds'' (JObj [])) (\<lambda>clouds.
     ebind (get_method clouds ''all'' JNull) (\<lambda>cloud_cover_pct.
     ebind (get_method payload ''dt'' JNull) (\<lambda>timestamp.
     ebind (get_method payload ''timezone'' JNull) (\<lambda>timezone_offset_s.
     Inr (JObj [(''city'', city), (''country'', country), (''coordinates'', coordinates),
                (''conditions'', conditions), (''temperature'', temperature),
                (''humidity'', humidity), (''pressure'', pressure), (''wind'', wind_out),
                (''visibility_m'', visibility_m), (''cloud_cover_pct'', cloud_cover_pct),
                (''timestamp'', timestamp), (''timezone_offset_s'', timezone_offset_s),
                (''source'', JStr ''openweathermap'')])))))))))))))))))))"

definition formatter_handler :: "pyexn \<Rightarrow> http_exception" where
  "formatter_handler e = HTTPException 500 (''Data formatting error: '' @ str_exn e)"

definition formatter :: "json \<Rightarrow> http_exception + json" where
  "formatter payload =
     (case formatter_body payload of
        Inl e \<Rightarrow> Inl (formatter_handler e)
      | Inr formatted \<Rightarrow> Inr formatted)"

subsection \<open>Request orchestrator\<close>

text \<open>
  What the body of the endpoint can raise: an \<open>HTTPException\<close> of one of the three steps,
  re-raised as it is, or any other exception, reported as unexpected.
\<close>

datatype raised = Http http_exception | Py pyexn

definition step :: "http_exception + 'a \<Rightarrow> raised + 'a" where
  "step r = (case r of Inl h \<Rightarrow> Inl (Http h) | Inr x \<Rightarrow> Inr x)"

definition assign :: "pyexn + 'a \<Rightarrow> raised + 'a" where
  "assign r = (case r of Inl e \<Rightarrow> Inl (Py e) | Inr x \<Rightarrow> Inr x)"

definition weather_body ::
    "(string \<Rightarrow> pyexn + json) \<Rightarrow> (json \<Rightarrow> json \<Rightarrow> pyexn + json) \<Rightarrow> string \<Rightarrow> raised + json" where
  "weather_body geo wx city =
     ebind (step (convert_cityname_to_coordinate geo city)) (\<lambda>(lat, lon).
     ebind (step (weather_info wx lat lon)) (\<lambda>payload.
     ebind (step (formatter payload)) (\<lambda>formatted_data.
     assign (setitem_key formatted_data ''input_city'' (JStr city)))))"

fun weather_handler_outer :: "raised \<Rightarrow> http_exception" where
  "weather_handler_outer (Http h) = h"
| "weather_handler_outer (Py e) = HTTPException 500 (''Unexpected error: '' @ str_exn e)"

definition weather ::
    "(string \<Rightarrow> pyexn + json) \<Rightarrow> (json \<Rightarrow> json \<Rightarrow> pyexn + json) \<Rightarrow> string
      \<Rightarrow> http_exception + json" where
  "weather geo wx city =
     (case weather_body geo wx city of
        Inl r \<Rightarrow> Inl (weather_handler_outer r)
      | Inr formatted_data \<Rightarrow> Inr formatted_data)"

text \<open>
  The endpoint as the framework serves it. The parameter \<open>city: str\<close> has no default, so
  a request without it is answered 422 with the list of validation errors, before the
  function runs. An \<open>HTTPException\<close> that leaves the function is answered with its status
  code and the body \<open>{"detail": detail}\<close>. A returned value is written as JSON with status
  200; JSON has no infinity and no NaN, a value that holds one cannot be written, and the
  answer is then the plain text \<open>Internal Server Error\<close> with status 500.
\<close>

fun json_compliant :: "json \<Rightarrow> bool" where
  "json_compliant (JFloat x) = (case x of Fin r \<Rightarrow> True | _ \<Rightarrow> False)"
| "json_compliant (JArr xs) = list_all json_compliant xs"
| "json_compliant (JObj kvs) = list_all (\<lambda>kv. json_compliant (snd kv)) kvs"
| "json_compliant v = True"

datatype body = JsonBody json | TextBody string | ValidationBody

datatype response = Response (status: nat) (body: body)

definition weather_endpoint ::
    "(string \<Rightarrow> pyexn + json) \<Rightarrow> (json \<Rightarrow> json \<Rightarrow> pyexn + json) \<Rightarrow> string option
      \<Rightarrow> response" where
  "weather_endpoint geo wx query_city =
     (case query_city of
        None \<Rightarrow> Response 422 ValidationBody
      | Some city \<Rightarrow>
          (case weather geo wx city of
             Inl (HTTPException s d) \<Rightarrow> Response s (JsonBody (JObj [(''detail'', JStr d)]))
           | Inr formatted_data \<Rightarrow>
               if json_compliant formatted_data then Response 200 (JsonBody formatted_data)
               else Response 500 (TextBody ''Internal Server Error'')))"

text \<open>Reading a field of a result, and a field of a nested dict of it.\<close>

definition field :: "json \<Rightarrow> string \<Rightarrow> json option" where
  "field v k = (case v of JObj kvs \<Rightarrow> map_of kvs k | _ \<Rightarrow> None)"

definition field2 :: "json \<Rightarrow> string \<Rightarrow> string \<Rightarrow> json option" where
  "field2 v k k' = (case field v k of Some w \<Rightarrow> field w k' | None \<Rightarrow> None)"

section \<open>Basic facts\<close>

lemma ebind_Inl [simp]: "ebind (Inl e) f = Inl e"
  by (simp add: ebind_def)

lemma ebind_Inr [simp]: "ebind (Inr x) f = f x"
  by (simp add: ebind_def)

lemma ebind_eq_Inr: "ebind m f = Inr y \<longleftrightarrow> (\<exists>x. m = Inr x \<and> f x = Inr y)"
  by (cases m) simp_all

lemma get_method_Inr: "get_method v k d = Inr x \<Longrightarrow> \<exists>kvs. v = JObj kvs"
  by (cases v) simp_all

lemma formatter_Inr: "formatter p = Inr out \<longleftrightarrow> formatter_body p = Inr out"
  by (simp add: formatter_def split: sum.splits)

lemma formatter_Inl:
  "formatter_body p = Inl e \<Longrightarrow>
   formatter p = Inl (HTTPException 500 (''Data formatting error: '' @ str_exn e))"
  by (simp add: formatter_def formatter_handler_def)

text \<open>What a successful run of the formatter went through, and where its parts end up.\<close>

lemma formatter_body_parts:
  assumes "formatter_body p = Inr out"
  shows "\<exists>ws weather main wind conditions temperature wind_out.
           get_method p ''weather'' (JArr [JObj []]) = Inr ws \<and> getitem0 ws = Inr weather
         \<and> get_method p ''main'' (JObj []) = Inr main
         \<and> get_method p ''wind'' (JObj []) = Inr wind
         \<and> conditions_of weather = Inr conditions
         \<and> temperature_of main = Inr temperature
         \<and> wind_of wind = Inr wind_out
         \<and> field out ''conditions'' = Some conditions
         \<and> field out ''temperature'' = Some temperature
         \<and> field out ''wind'' = Some wind_out"
  using assms unfolding formatter_body_def ebind_eq_Inr
  by (auto simp: field_def)

section \<open>Facts about floats\<close>

subsection \<open>The binary exponent\<close>

lemma two_powi_pos [simp]: "0 < (2::rat) powi e"
  by (simp add: zero_less_power_int)

lemma two_powi_less_iff: "(2::rat) powi a < 2 powi b \<longleftrightarrow> a < b"
proof
  assume "(2::rat) powi a < 2 powi b"
  show "a < b"
  proof (rule ccontr)
    assume "\<not> a < b"
    then have "b \<le> a" by simp
    then have "(2::rat) powi b \<le> 2 powi a" by (intro power_int_increasing) simp_all
    with \<open>(2::rat) powi a < 2 powi b\<close> show False by simp
  qed
next
  assume "a < b"
  then show "(2::rat) powi a < 2 powi b" by (intro power_int_strict_increasing) simp_all
qed

lemma two_powi_le_iff: "(2::rat) powi a \<le> 2 powi b \<longleftrightarrow> a \<le> b"
  using two_powi_less_iff [of b a] by (simp add: not_less [symmetric])

lemma ilog2_bounds:
  assumes "x \<noteq> 0"
  shows "2 powi (ilog2 x) \<le> \<bar>x\<bar> \<and> \<bar>x\<bar> < 2 powi (ilog2 x + 1)"
proof (cases "1 \<le> \<bar>x\<bar>")
  case True
  define n where "n = \<lfloor>\<bar>x\<bar>\<rfloor>"
  define k where "k = bitlen n"
  have n: "0 < n" using True by (simp add: n_def)
  from bitlen_bounds [OF n] have b: "2 ^ nat (k - 1) \<le> n" "n < 2 ^ nat k"
    by (simp_all add: k_def)
  have k: "1 \<le> k" using n by (simp add: k_def bitlen_alt_def)
  have e: "ilog2 x = k - 1" using True by (simp add: ilog2_def k_def n_def)
  have "(2::rat) powi (k - 1) = of_int (2 ^ nat (k - 1))"
    using k by (simp add: power_int_def)
  also have "\<dots> \<le> of_int n" using b(1) by (simp only: of_int_le_iff)
  also have "\<dots> \<le> \<bar>x\<bar>" by (simp add: n_def)
  finally have lo: "2 powi (k - 1) \<le> \<bar>x\<bar>" .
  have "n + 1 \<le> 2 ^ nat k" using b(2) by simp
  then have "(of_int (n + 1) :: rat) \<le> of_int (2 ^ nat k)" by (simp only: of_int_le_iff)
  moreover have "\<bar>x\<bar> < of_int (n + 1)" unfolding n_def by linarith
  ultimately have "\<bar>x\<bar> < of_int (2 ^ nat k)" by simp
  also have "\<dots> = 2 powi k" using k by (simp add: power_int_def)
  finally have hi: "\<bar>x\<bar> < 2 powi k" .
  from lo hi e show ?thesis by simp
next
  case False
  define y where "y = 1 / \<bar>x\<bar>"
  define n where "n = \<lceil>y\<rceil> - 1"
  define k where "k = bitlen n"
  have xpos: "0 < \<bar>x\<bar>" using assms by simp
  have y1: "1 < y" using False xpos by (simp add: y_def)
  have n: "0 < n" using y1 unfolding n_def by linarith
  from bitlen_bounds [OF n] have b: "2 ^ nat (k - 1) \<le> n" "n < 2 ^ nat k"
    by (simp_all add: k_def)
  have k: "1 \<le> k" using n by (simp add: k_def bitlen_alt_def)
  have e: "ilog2 x = - k" using False by (simp add: ilog2_def k_def n_def y_def)
  have "n + 1 \<le> 2 ^ nat k" using b(2) by simp
  then have le: "(of_int (n + 1) :: rat) \<le> of_int (2 ^ nat k)" by (simp only: of_int_le_iff)
  have "y \<le> of_int (n + 1)" unfolding n_def by simp
  also have "(of_int (n + 1) :: rat) \<le> of_int (2 ^ nat k)" by (rule le)
  also have "\<dots> = 2 powi k" using k by (simp add: power_int_def)
  finally have "y \<le> 2 powi k" .
  then have lo: "2 powi (- k) \<le> \<bar>x\<bar>"
    using xpos by (simp add: y_def power_int_minus field_simps)
  have "(2::rat) powi (k - 1) = of_int (2 ^ nat (k - 1))"
    using k by (simp add: power_int_def)
  also have "\<dots> \<le> of_int n" using b(1) by (simp only: of_int_le_iff)
  also have "\<dots> < y" unfolding n_def by linarith
  finally have "2 powi (k - 1) < y" .
  then have "\<bar>x\<bar> * 2 powi (k - 1) < 1"
    using xpos by (simp add: y_def field_simps)
  moreover have "(2::rat) powi (- k + 1) * 2 powi (k - 1) = 1"
    by (simp flip: power_int_add)
  ultimately have "\<bar>x\<bar> * 2 powi (k - 1) < 2 powi (- k + 1) * 2 powi (k - 1)"
    by simp
  then have hi: "\<bar>x\<bar> < 2 powi (- k + 1)"
    using two_powi_pos [of "k - 1"] by (simp only: mult_less_cancel_right_pos)
  from lo hi e show ?thesis by simp
qed

lemma ilog2_eqI:
  assumes "2 powi e \<le> \<bar>x\<bar>" and "\<bar>x\<bar> < 2 powi (e + 1)"
  shows "ilog2 x = e"
proof -
  have "x \<noteq> 0"
  proof
    assume "x = 0"
    with assms(1) have "(2::rat) powi e \<le> 0" by simp
    with two_powi_pos [of e] show False by linarith
  qed
  from ilog2_bounds [OF this] have b: "2 powi (ilog2 x) \<le> \<bar>x\<bar>" "\<bar>x\<bar> < 2 powi (ilog2 x + 1)"
    by simp_all
  have "(2::rat) powi e < 2 powi (ilog2 x + 1)" using assms(1) b(2) by simp
  then have 1: "e < ilog2 x + 1" by (simp only: two_powi_less_iff)
  have "(2::rat) powi (ilog2 x) < 2 powi (e + 1)" using assms(2) b(1) by simp
  then have 2: "ilog2 x < e + 1" by (simp only: two_powi_less_iff)
  from 1 2 show ?thesis by simp
qed

subsection \<open>Rounding\<close>

lemma rhe_of_int [simp]: "round_half_even (of_int n) = n"
  by (simp add: round_half_even_def)

lemma rhe_le: "x \<le> of_int n \<Longrightarrow> round_half_even x \<le> n"
proof -
  assume a: "x \<le> of_int n"
  show ?thesis
  proof (cases "x = of_int n")
    case True
    then show ?thesis by simp
  next
    case False
    with a have "x < of_int n" by simp
    then have "\<lfloor>x\<rfloor> < n" by (simp add: floor_less_iff)
    then show ?thesis by (simp add: round_half_even_def Let_def)
  qed
qed

lemma rhe_ge: "of_int n \<le> x \<Longrightarrow> n \<le> round_half_even x"
proof -
  assume "of_int n \<le> x"
  then have "n \<le> \<lfloor>x\<rfloor>" by (simp add: le_floor_iff)
  then show ?thesis by (simp add: round_half_even_def Let_def)
qed

text \<open>The significand after rounding has at most 53 bits, or is exactly \<open>2 ^ 53\<close>.\<close>

lemma significand_le:
  assumes "x \<noteq> 0" and "q = max (ilog2 x) (- 1022) - 52"
  shows "round_half_even (\<bar>x\<bar> / 2 powi q) \<le> 2 ^ 53"
proof -
  have "ilog2 x + 1 \<le> q + 53" using assms(2) by simp
  then have "(2::rat) powi (ilog2 x + 1) \<le> 2 powi (q + 53)"
    by (simp only: two_powi_le_iff)
  with ilog2_bounds [OF assms(1)] have "\<bar>x\<bar> \<le> 2 powi (q + 53)" by simp
  also have "\<dots> = 2 powi q * 2 ^ 53" by (simp add: power_int_add)
  finally have "\<bar>x\<bar> / 2 powi q \<le> 2 ^ 53"
    using two_powi_pos [of q] by (simp add: field_simps)
  then have "\<bar>x\<bar> / 2 powi q \<le> of_int (2 ^ 53)" by simp
  then show ?thesis by (rule rhe_le)
qed

lemma fl_finite:
  assumes "\<bar>z\<bar> \<le> max_double"
  shows "\<exists>y. fl z = Fin y"
proof (cases "z = 0")
  case True
  then show ?thesis by (simp add: fl_def)
next
  case False
  define q where "q = max (ilog2 z) (- 1022) - 52"
  define m where "m = round_half_even (\<bar>z\<bar> / 2 powi q)"
  have m53: "m \<le> 2 ^ 53" unfolding m_def using False q_def by (rule significand_le)
  have "(2::rat) powi (ilog2 z) \<le> \<bar>z\<bar>" using ilog2_bounds [OF False] by simp
  also have "\<dots> < 2 powi 1024" using assms by (simp add: max_double_def)
  finally have "ilog2 z < 1024" by (simp only: two_powi_less_iff)
  then have q971: "q \<le> 971" by (simp add: q_def)
  have "of_int m * 2 powi q < (2::rat) ^ 1024"
  proof (cases "q = 971")
    case True
    have "\<bar>z\<bar> / 2 powi q \<le> of_int (2 ^ 53 - 1)"
      using assms by (simp add: True max_double_def field_simps)
    then have "m \<le> 2 ^ 53 - 1" unfolding m_def by (rule rhe_le)
    then have "(of_int m :: rat) \<le> of_int (2 ^ 53 - 1)" by (simp only: of_int_le_iff)
    then have "of_int m * (2::rat) powi q \<le> of_int (2 ^ 53 - 1) * 2 powi q"
      by (intro mult_right_mono) simp_all
    also have "\<dots> < 2 ^ 1024" by (simp add: True)
    finally show ?thesis .
  next
    case False
    with q971 have "q \<le> 970" by simp
    then have "(2::rat) powi q \<le> 2 powi 970" by (simp only: two_powi_le_iff)
    moreover have "(of_int m :: rat) \<le> of_int (2 ^ 53)" using m53 by (simp only: of_int_le_iff)
    ultimately have "of_int m * (2::rat) powi q \<le> of_int (2 ^ 53) * 2 powi 970"
      by (intro mult_mono) simp_all
    also have "\<dots> < 2 ^ 1024" by simp
    finally show ?thesis .
  qed
  then show ?thesis
    using \<open>z \<noteq> 0\<close> by (simp add: fl_def Let_def q_def [symmetric] m_def [symmetric] not_le [symmetric])
qed

lemma fl_range:
  assumes "fl x = Fin y"
  shows "\<bar>y\<bar> \<le> max_double \<and> (2 ^ 53 \<le> \<bar>y\<bar> \<longrightarrow> (\<exists>i. y = of_int i))"
proof (cases "x = 0")
  case True
  with assms have "y = 0" by (simp add: fl_def)
  then show ?thesis by (simp add: max_double_def)
next
  case False
  define q where "q = max (ilog2 x) (- 1022) - 52"
  define m where "m = round_half_even (\<bar>x\<bar> / 2 powi q)"
  define r :: rat where "r = of_int m * 2 powi q"
  have m53: "m \<le> 2 ^ 53" unfolding m_def using False q_def by (rule significand_le)
  then have m53': "(of_int m :: rat) \<le> of_int (2 ^ 53)" by (simp only: of_int_le_iff)
  have "of_int 0 \<le> \<bar>x\<bar> / 2 powi q" by simp
  then have m0: "0 \<le> m" unfolding m_def by (rule rhe_ge)
  then have r0: "0 \<le> r" by (simp add: r_def)
  have "fl x = (if 2 ^ 1024 \<le> r then (if 0 < x then PInf else NInf)
                else Fin (if 0 < x then r else - r))"
    by (simp only: fl_def Let_def r_def m_def q_def False if_False)
  with assms have fin: "r < 2 ^ 1024" and y: "y = (if 0 < x then r else - r)"
    by (simp_all split: if_splits)
  from y r0 have ay: "\<bar>y\<bar> = r" by simp
  have bound: "r \<le> max_double"
  proof (cases "q \<le> 970")
    case True
    then have "(2::rat) powi q \<le> 2 powi 970" by (simp only: two_powi_le_iff)
    with m53' have "of_int m * (2::rat) powi q \<le> of_int (2 ^ 53) * 2 powi 970"
      by (intro mult_mono) simp_all
    also have "\<dots> \<le> max_double" by (simp add: max_double_def)
    finally show ?thesis by (simp add: r_def)
  next
    case False
    define j where "j = nat (q - 971)"
    from False have q: "q = 971 + int j" by (simp add: j_def)
    have "(2::rat) powi q = 2 ^ 971 * 2 ^ j"
      unfolding q by (simp add: power_int_add)
    then have r: "r = of_int (m * 2 ^ j) * 2 ^ 971" by (simp add: r_def)
    with fin have "of_int (m * 2 ^ j) * (2::rat) ^ 971 < 2 ^ 53 * 2 ^ 971" by simp
    then have "(of_int (m * 2 ^ j) :: rat) < of_int (2 ^ 53)"
      by (simp only: mult_less_cancel_right_pos zero_less_power zero_less_numeral of_int_power of_int_numeral)
    then have "m * 2 ^ j < 2 ^ 53" by (simp only: of_int_less_iff)
    then have "m * 2 ^ j \<le> 2 ^ 53 - 1" by simp
    then have "(of_int (m * 2 ^ j) :: rat) \<le> of_int (2 ^ 53 - 1)" by (simp only: of_int_le_iff)
    then have "of_int (m * 2 ^ j) * (2::rat) ^ 971 \<le> of_int (2 ^ 53 - 1) * 2 ^ 971"
      by (intro mult_right_mono) simp_all
    also have "\<dots> = max_double" by (simp add: max_double_def)
    finally show ?thesis by (simp add: r)
  qed
  have whole: "\<exists>i. y = of_int i" if big: "2 ^ 53 \<le> r"
  proof -
    have "0 \<le> q"
    proof (rule ccontr)
      assume "\<not> 0 \<le> q"
      then have "q \<le> - 1" by simp
      then have "(2::rat) powi q \<le> 2 powi (- 1)" by (simp only: two_powi_le_iff)
      with m53' have "of_int m * (2::rat) powi q \<le> of_int (2 ^ 53) * 2 powi (- 1)"
        by (intro mult_mono) simp_all
      also have "\<dots> < 2 ^ 53" by simp
      finally show False using big by (simp add: r_def)
    qed
    then have "(2::rat) powi q = of_int (2 ^ nat q)" by (simp add: power_int_def)
    then have "r = of_int (m * 2 ^ nat q)" by (simp add: r_def)
    with y have "y = of_int (if 0 < x then m * 2 ^ nat q else - (m * 2 ^ nat q))" by simp
    then show ?thesis ..
  qed
  from bound whole ay show ?thesis by simp
qed

lemma py_round_fl:
  assumes "fl x = Fin y"
  shows "\<exists>z. py_round (Fin y) 1 = Inr (Fin z)"
proof -
  from fl_range [OF assms] have b: "\<bar>y\<bar> \<le> max_double"
    and w: "2 ^ 53 \<le> \<bar>y\<bar> \<Longrightarrow> \<exists>i. y = of_int i" by simp_all
  have "\<bar>of_int (round_half_even (y * 10)) / 10\<bar> \<le> max_double"
  proof (cases "2 ^ 53 \<le> \<bar>y\<bar>")
    case True
    from w [OF True] obtain i where i: "y = of_int i" ..
    have "y * 10 = of_int (i * 10)" by (simp add: i)
    then have "round_half_even (y * 10) = i * 10" by (simp only: rhe_of_int)
    then show ?thesis using b by (simp add: i)
  next
    case False
    have up: "y * 10 \<le> of_int (10 * 2 ^ 53)" using False by simp
    have lo: "of_int (- (10 * 2 ^ 53)) \<le> y * 10" using False by simp
    from rhe_le [OF up] rhe_ge [OF lo] have "\<bar>round_half_even (y * 10)\<bar> \<le> 10 * 2 ^ 53" by simp
    then have "(of_int \<bar>round_half_even (y * 10)\<bar> :: rat) \<le> of_int (10 * 2 ^ 53)"
      by (simp only: of_int_le_iff)
    then have "\<bar>of_int (round_half_even (y * 10)) / 10 :: rat\<bar> \<le> 2 ^ 53"
      by simp
    also have "\<dots> \<le> max_double" by (simp add: max_double_def)
    finally show ?thesis .
  qed
  from fl_finite [OF this] show ?thesis
    by (auto simp: py_round_def)
qed

subsection \<open>Evaluation\<close>

lemma py_round_eq:
  assumes "round_half_even (r * 10) = k" and "\<bar>of_int k / 10 :: rat\<bar> \<le> max_double"
  shows "py_round (Fin r) 1 = Inr (fl (of_int k / 10))"
proof -
  from fl_finite [OF assms(2)] obtain y where "fl (of_int k / 10) = Fin y" ..
  then show ?thesis by (simp add: py_round_def assms(1))
qed

lemma floor_rat_numeral:
  "\<lfloor>numeral a / numeral b :: rat\<rfloor> = numeral a div numeral b"
  by (metis floor_divide_of_int_eq of_int_numeral)

lemma floor_rat_minus_numeral:
  "\<lfloor>- (numeral a / numeral b) :: rat\<rfloor> = - numeral a div numeral b"
  by (metis divide_minus_left floor_divide_of_int_eq of_int_neg_numeral of_int_numeral)

lemmas rhe_eval = round_half_even_def Let_def floor_rat_numeral floor_rat_minus_numeral

lemma fl_zero [simp]: "fl 0 = Fin 0"
  by (simp add: fl_def)

lemma kelvin_literal: "fl (27315 / 100) = Fin (2402652809016115 / 8796093022208)"
proof -
  have "ilog2 (27315 / 100) = 8" by (rule ilog2_eqI) simp_all
  then show ?thesis by (simp add: fl_def rhe_eval)
qed

lemma convert_unfold:
  "convert_kelvin_to_celsius v
   = ebind (sub_float v (Fin (2402652809016115 / 8796093022208))) (\<lambda>d. py_round d 1)"
  by (simp only: convert_kelvin_to_celsius_def kelvin_literal)

lemma minus_kelvin: "fl (- (2402652809016115 / 8796093022208)) = Fin (- (2402652809016115 / 8796093022208))"
proof -
  have "ilog2 (- (2402652809016115 / 8796093022208)) = 8" by (rule ilog2_eqI) simp_all
  then show ?thesis by (simp add: fl_def rhe_eval)
qed

lemma convert_float_total: "\<exists>y. convert_kelvin_to_celsius (JFloat x) = Inr y"
proof (cases x)
  case (Fin a)
  show ?thesis
  proof (cases "fl (a - 2402652809016115 / 8796093022208)")
    case (Fin y)
    from py_round_fl [OF this] obtain z where "py_round (Fin y) 1 = Inr (Fin z)" ..
    with Fin \<open>x = Fin a\<close> show ?thesis by (simp add: convert_unfold)
  qed (simp_all add: convert_unfold py_round_def \<open>x = Fin a\<close>)
qed (simp_all add: convert_unfold py_round_def)

lemma fl_300: "fl 300 = Fin 300"
proof -
  have "ilog2 300 = 8" by (rule ilog2_eqI) simp_all
  then show ?thesis by (simp add: fl_def rhe_eval)
qed

lemma fl_300_minus_kelvin: "fl (236175097646285 / 8796093022208) = Fin (236175097646285 / 8796093022208)"
proof -
  have "ilog2 (236175097646285 / 8796093022208) = 4" by (rule ilog2_eqI) simp_all
  then show ?thesis by (simp add: fl_def rhe_eval)
qed

lemma round_300_minus_kelvin:
  "py_round (Fin (236175097646285 / 8796093022208)) 1 = Inr (fl (of_int 269 / 10))"
  by (rule py_round_eq) (simp_all add: rhe_eval max_double_def)

lemma round_minus_kelvin:
  "py_round (Fin (- (2402652809016115 / 8796093022208))) 1 = Inr (fl (of_int (- 2731) / 10))"
  by (rule py_round_eq) (simp_all add: rhe_eval max_double_def)

lemma rhe_zero [simp]: "round_half_even 0 = 0"
  by (simp add: round_half_even_def)

lemma round_zero: "py_round (Fin 0) 1 = Inr (fl 0)"
  by (simp add: py_round_def)

lemma fl_10: "fl 10 = Fin 10"
proof -
  have "ilog2 10 = 3" by (rule ilog2_eqI) simp_all
  then show ?thesis by (simp add: fl_def rhe_eval)
qed

lemma round_10: "py_round (Fin 10) 1 = Inr (fl 10)"
  by (simp add: py_round_def rhe_eval fl_10)

lemma literal_28315: "fl (28315 / 100) = Fin (2490613739238195 / 8796093022208)"
proof -
  have "ilog2 (28315 / 100) = 8" by (rule ilog2_eqI) simp_all
  then show ?thesis by (simp add: fl_def rhe_eval)
qed

lemma convert_zero: "convert_kelvin_to_celsius (JInt 0) = Inr (fl (- 2731 / 10))"
  using round_minus_kelvin by (simp add: convert_unfold float_of_int_def minus_kelvin)

lemma convert_float_zero: "convert_kelvin_to_celsius (JFloat (fl 0)) = Inr (fl (- 2731 / 10))"
  using round_minus_kelvin by (simp add: convert_unfold minus_kelvin)

section \<open>Facts about the service\<close>

lemma temperature_field_absent:
  "map_of mkvs k = None \<Longrightarrow> temperature_field (JObj mkvs) k = Inr (JFloat (fl (- 2731 / 10)))"
  by (simp add: temperature_field_def convert_zero)

lemma temperature_of_parts:
  assumes "temperature_of main = Inr t"
  shows "\<exists>a b c d. temperature_field main ''temp'' = Inr a
          \<and> temperature_field main ''feels_like'' = Inr b
          \<and> temperature_field main ''temp_min'' = Inr c
          \<and> temperature_field main ''temp_max'' = Inr d
          \<and> field t ''current_c'' = Some a \<and> field t ''feels_like_c'' = Some b
          \<and> field t ''min_c'' = Some c \<and> field t ''max_c'' = Some d"
  using assms unfolding temperature_of_def ebind_eq_Inr by (auto simp: field_def)

lemma formatter_empty_payload:
  "formatter (JObj []) = Inr (JObj
     [(''city'', JNull), (''country'', JNull), (''coordinates'', JNull),
      (''conditions'', JObj [(''label'', JNull), (''description'', JNull), (''icon'', JNull)]),
      (''temperature'', JObj [(''current_c'', JFloat (fl (- 2731 / 10))),
                              (''feels_like_c'', JFloat (fl (- 2731 / 10))),
                              (''min_c'', JFloat (fl (- 2731 / 10))),
                              (''max_c'', JFloat (fl (- 2731 / 10)))]),
      (''humidity'', JNull), (''pressure'', JNull),
      (''wind'', JObj [(''speed_mps'', JNull), (''direction_deg'', JNull), (''gust_mps'', JNull)]),
      (''visibility_m'', JNull), (''cloud_cover_pct'', JNull), (''timestamp'', JNull),
      (''timezone_offset_s'', JNull), (''source'', JStr ''openweathermap'')])"
  by (simp add: formatter_def formatter_body_def conditions_of_def temperature_of_def
      wind_of_def temperature_field_absent)

lemma wind_of_empty:
  "wind_of (JObj [])
   = Inr (JObj [(''speed_mps'', JNull), (''direction_deg'', JNull), (''gust_mps'', JNull)])"
  by (simp add: wind_of_def)

lemma get_method_append_wind:
  assumes "map_of kvs ''wind'' = None"
  shows "get_method (JObj (kvs @ [(''wind'', JObj [])])) k d
         = (if k = ''wind'' then Inr (JObj []) else get_method (JObj kvs) k d)"
  using assms by (simp add: map_add_def split: option.splits)

lemma get_method_absent:
  "map_of kvs k = None \<Longrightarrow> get_method (JObj kvs) k d = Inr d"
  by simp

lemma geocoding_handler_status [simp]: "status_code (geocoding_handler e) = 500"
  by (cases e) simp_all

lemma weather_handler_status [simp]: "status_code (weather_handler e) = 500"
  by (cases e) simp_all

lemma convert_cityname_status:
  "convert_cityname_to_coordinate geo city = Inl h \<Longrightarrow> status_code h = 500"
  by (auto simp: convert_cityname_to_coordinate_def split: sum.splits)

lemma weather_info_status: "weather_info wx lat lon = Inl h \<Longrightarrow> status_code h = 500"
  by (auto simp: weather_info_def split: sum.splits)

lemma formatter_status: "formatter p = Inl h \<Longrightarrow> status_code h = 500"
  by (auto simp: formatter_def formatter_handler_def split: sum.splits)

lemma weather_body_status:
  "weather_body geo wx city = Inl (Http h) \<Longrightarrow> status_code h = 500"
  unfolding weather_body_def
  by (auto simp: ebind_def step_def assign_def split: sum.splits prod.splits
      dest: convert_cityname_status weather_info_status formatter_status)

lemma weather_status: "weather geo wx city = Inl h \<Longrightarrow> status_code h = 500"
proof -
  assume a: "weather geo wx city = Inl h"
  then obtain r where r: "weather_body geo wx city = Inl r" "h = weather_handler_outer r"
    by (auto simp: weather_def split: sum.splits)
  show ?thesis
  proof (cases r)
    case (Http h')
    with r weather_body_status [of geo wx city h'] show ?thesis by simp
  next
    case (Py e)
    with r show ?thesis by simp
  qed
qed

text \<open>How a failure of a step leaves the endpoint.\<close>

lemma weather_geocoding_failure:
  "convert_cityname_to_coordinate geo city = Inl h \<Longrightarrow> weather geo wx city = Inl h"
  by (simp add: weather_def weather_body_def step_def)

lemma weather_formatter_failure:
  "convert_cityname_to_coordinate geo city = Inr (lat, lon) \<Longrightarrow> wx lat lon = Inr p
   \<Longrightarrow> formatter p = Inl h \<Longrightarrow> weather geo wx city = Inl h"
  by (simp add: weather_def weather_body_def step_def weather_info_def)

lemma temperature_field_null:
  "map_of mkvs k = Some JNull \<Longrightarrow>
   temperature_field (JObj mkvs) k
   = Inl (TypeError (''unsupported operand type(s) for -: '' @ quoted ''NoneType''
                      @ '' and '' @ quoted ''float''))"
  by (simp add: temperature_field_def convert_kelvin_to_celsius_def)

lemma convert_28315: "convert_kelvin_to_celsius (JFloat (fl (28315 / 100))) = Inr (fl 10)"
  using round_10 unfolding convert_unfold literal_28315 by (simp add: fl_10)

text \<open>The result of the formatter is a dict, so the endpoint can always add its key.\<close>

lemma formatter_dict: "formatter p = Inr out \<Longrightarrow> \<exists>kvs. out = JObj kvs"
proof -
  assume "formatter p = Inr out"
  then have "formatter_body p = Inr out" by (simp add: formatter_Inr)
  from formatter_body_parts [OF this] obtain w where "field out ''wind'' = Some w" by blast
  then show ?thesis by (cases out) (simp_all add: field_def)
qed

lemma weather_body_no_py: "weather_body geo wx city \<noteq> Inl (Py e)"
  unfolding weather_body_def
  by (auto simp: ebind_def step_def assign_def split: sum.splits prod.splits
      dest!: formatter_dict)

lemma weather_endpoint_failure:
  "weather geo wx city = Inl h \<Longrightarrow>
   weather_endpoint geo wx (Some city)
   = Response 500 (JsonBody (JObj [(''detail'', JStr (detail h))]))"
  using weather_status [of geo wx city h]
  by (cases h) (simp add: weather_endpoint_def)

lemma weather_endpoint_status:
  "status (weather_endpoint geo wx (Some city)) = 200
   \<or> status (weather_endpoint geo wx (Some city)) = 500"
proof (cases "weather geo wx city")
  case (Inl h)
  from weather_endpoint_failure [OF this] show ?thesis by simp
next
  case (Inr out)
  then show ?thesis by (simp add: weather_endpoint_def)
qed

text \<open>When the formatter succeeds.\<close>

lemma temperature_field_float:
  "map_of mkvs k = Some (JFloat x) \<Longrightarrow> \<exists>v. temperature_field (JObj mkvs) k = Inr v"
  using convert_float_total [of x] by (auto simp: temperature_field_def)

lemma temperature_field_ok:
  "map_of mkvs k = None \<or> (\<exists>x. map_of mkvs k = Some (JFloat x)) \<Longrightarrow>
   \<exists>v. temperature_field (JObj mkvs) k = Inr v"
  using temperature_field_float temperature_field_absent by blast

lemma temperature_of_ok:
  assumes "map_of mkvs ''temp'' = None \<or> (\<exists>x. map_of mkvs ''temp'' = Some (JFloat x))"
      and "map_of mkvs ''feels_like'' = None \<or> (\<exists>x. map_of mkvs ''feels_like'' = Some (JFloat x))"
      and "map_of mkvs ''temp_min'' = None \<or> (\<exists>x. map_of mkvs ''temp_min'' = Some (JFloat x))"
      and "map_of mkvs ''temp_max'' = None \<or> (\<exists>x. map_of mkvs ''temp_max'' = Some (JFloat x))"
  shows "\<exists>t. temperature_of (JObj mkvs) = Inr t"
proof -
  from temperature_field_ok [OF assms(1)] obtain a
    where a: "temperature_field (JObj mkvs) ''temp'' = Inr a" ..
  from temperature_field_ok [OF assms(2)] obtain b
    where b: "temperature_field (JObj mkvs) ''feels_like'' = Inr b" ..
  from temperature_field_ok [OF assms(3)] obtain c
    where c: "temperature_field (JObj mkvs) ''temp_min'' = Inr c" ..
  from temperature_field_ok [OF assms(4)] obtain d
    where d: "temperature_field (JObj mkvs) ''temp_max'' = Inr d" ..
  show ?thesis by (simp add: temperature_of_def a b c d)
qed

lemma formatter_body_ok:
  assumes "get_method (JObj kvs) ''weather'' (JArr [JObj []]) = Inr ws"
      and "getitem0 ws = Inr (JObj w)"
      and "get_method (JObj kvs) ''main'' (JObj []) = Inr (JObj mkvs)"
      and "get_method (JObj kvs) ''wind'' (JObj []) = Inr (JObj wn)"
      and "get_method (JObj kvs) ''sys'' (JObj []) = Inr (JObj sy)"
      and "get_method (JObj kvs) ''clouds'' (JObj []) = Inr (JObj cl)"
      and "temperature_of (JObj mkvs) = Inr t"
  shows "\<exists>out. formatter_body (JObj kvs) = Inr out"
  unfolding formatter_body_def
  using assms
  by (simp add: conditions_of_def wind_of_def del: get_method.simps)
     (simp)

section \<open>The formatter and an empty weather array\<close>

text \<open>
  C1. The specification asks that a payload whose \<open>weather\<close> key is present and holds an
  empty array is formatted with \<open>conditions = {label: null, description: null, icon: null}\<close>.
  The source gives the default \<open>[{}]\<close> only to an absent key: on an empty array the
  subscript \<open>[0]\<close> raises, and every such payload ends in the formatting error below.
\<close>

theorem formatter_empty_weather:
  assumes "map_of kvs ''weather'' = Some (JArr [])"
  shows "formatter (JObj kvs)
         = Inl (HTTPException 500 ''Data formatting error: list index out of range'')"
  using assms by (simp add: formatter_def formatter_body_def formatter_handler_def)

theorem formatter_empty_weather_witness:
  "map_of [(''weather'', JArr [])] ''weather'' = Some (JArr [])
   \<and> formatter (JObj [(''weather'', JArr [])])
     = Inl (HTTPException 500 ''Data formatting error: list index out of range'')"
  using formatter_empty_weather [of "[(''weather'', JArr [])]"] by simp

section \<open>The unit converter\<close>

text \<open>
  C2. On every float the unit converter returns a float, the value of
  \<open>round(kelvin - 273.15, 1)\<close>, and raises nothing. In particular
  \<open>273.15\<close> gives \<open>0.0\<close>, \<open>0\<close> gives \<open>-273.1\<close> and \<open>300\<close> gives \<open>26.9\<close>, for the float
  and for the int argument alike (a decimal literal is the float nearest to it).
\<close>

theorem convert_kelvin_to_celsius_float:
  "(\<exists>y. convert_kelvin_to_celsius (JFloat x) = Inr y
        \<and> py_round (fsub x (fl (27315 / 100))) 1 = Inr y)
   \<and> convert_kelvin_to_celsius (JFloat (fl (27315 / 100))) = Inr (fl 0)
   \<and> convert_kelvin_to_celsius (JFloat (fl 0)) = Inr (fl (- 2731 / 10))
   \<and> convert_kelvin_to_celsius (JInt 0) = Inr (fl (- 2731 / 10))
   \<and> convert_kelvin_to_celsius (JFloat (fl 300)) = Inr (fl (269 / 10))
   \<and> convert_kelvin_to_celsius (JInt 300) = Inr (fl (269 / 10))"
proof -
  from convert_float_total obtain y where y: "convert_kelvin_to_celsius (JFloat x) = Inr y" ..
  then have 1: "\<exists>y. convert_kelvin_to_celsius (JFloat x) = Inr y
        \<and> py_round (fsub x (fl (27315 / 100))) 1 = Inr y"
    by (simp add: convert_kelvin_to_celsius_def)
  have 2: "convert_kelvin_to_celsius (JFloat (fl (27315 / 100))) = Inr (fl 0)"
    using round_zero unfolding convert_unfold kelvin_literal by simp
  have 3: "convert_kelvin_to_celsius (JFloat (fl 0)) = Inr (fl (- 2731 / 10))"
    using round_minus_kelvin by (simp add: convert_unfold minus_kelvin)
  have 4: "convert_kelvin_to_celsius (JInt 0) = Inr (fl (- 2731 / 10))"
    using round_minus_kelvin by (simp add: convert_unfold float_of_int_def minus_kelvin)
  have 5: "convert_kelvin_to_celsius (JFloat (fl 300)) = Inr (fl (269 / 10))"
    using round_300_minus_kelvin by (simp add: convert_unfold fl_300 fl_300_minus_kelvin)
  have 6: "convert_kelvin_to_celsius (JInt 300) = Inr (fl (269 / 10))"
    using round_300_minus_kelvin
    by (simp add: convert_unfold float_of_int_def fl_300 fl_300_minus_kelvin)
  from 1 2 3 4 5 6 show ?thesis by blast
qed

section \<open>Unknown cities\<close>

text \<open>
  C3. When the geocoding provider answers with an object whose \<open>results\<close> key is absent or
  holds an empty array, the body of the geocoding client raises the not-found error that
  names the requested city, the client reports it as an HTTP exception with status 500 and
  the detail \<open>City '<city>' not found in geocoding results\<close>, and the endpoint fails with
  exactly that HTTP exception.
\<close>

theorem unknown_city_not_found:
  assumes "geo city = Inr (JObj kvs)"
      and "map_of kvs ''results'' = None \<or> map_of kvs ''results'' = Some (JArr [])"
  shows "geocoding_body geo city
         = Inl (ValueError (''City '' @ quoted city @ '' not found in geocoding results''))
       \<and> convert_cityname_to_coordinate geo city
         = Inl (HTTPException 500 (''City '' @ quoted city @ '' not found in geocoding results''))
       \<and> weather geo wx city
         = Inl (HTTPException 500 (''City '' @ quoted city @ '' not found in geocoding results''))"
proof -
  have nf: "not_found (JObj kvs) = Inr True"
    using assms(2) by (auto simp: not_found_def)
  then have b: "geocoding_body geo city
         = Inl (ValueError (''City '' @ quoted city @ '' not found in geocoding results''))"
    by (simp add: geocoding_body_def assms(1))
  then have c: "convert_cityname_to_coordinate geo city
         = Inl (HTTPException 500 (''City '' @ quoted city @ '' not found in geocoding results''))"
    by (simp add: convert_cityname_to_coordinate_def)
  from weather_geocoding_failure [OF c] b c show ?thesis by simp
qed

theorem unknown_city_not_found_witness:
  "map_of [(''results'', JArr [])] ''results'' = Some (JArr [])
   \<and> weather (\<lambda>c. Inr (JObj [(''results'', JArr [])])) (\<lambda>lat lon. Inr JNull) ''Atlantis''
     = Inl (HTTPException 500
         (''City '' @ quoted ''Atlantis'' @ '' not found in geocoding results''))"
  using unknown_city_not_found [of "\<lambda>c. Inr (JObj [(''results'', JArr [])])" "''Atlantis''"
      "[(''results'', JArr [])]" "\<lambda>lat lon. Inr JNull"]
  by simp

section \<open>Absent temperature fields\<close>

text \<open>
  C4. Let \<open>main\<close> be the dict that \<open>payload.get("main", {})\<close> gives. A temperature key
  (\<open>temp\<close>, \<open>feels_like\<close>, \<open>temp_min\<close>, \<open>temp_max\<close>) that is absent from it is not fatal and is
  not nulled: the lookup with its default and the unit converter give the float \<open>-273.1\<close>.
  Whenever the formatter returns, the corresponding field of the result is \<open>-273.1\<close>; and
  the formatter does return when the other sub-objects (\<open>weather[0]\<close>, \<open>wind\<close>, \<open>sys\<close>,
  \<open>clouds\<close>, absent or not) are dicts and every temperature key of \<open>main\<close> is absent or holds
  a float. The default is the int \<open>0\<close>; the converter gives the same float for it and for
  \<open>0.0\<close>.
\<close>

theorem formatter_absent_temperature:
  assumes "get_method (JObj kvs) ''main'' (JObj []) = Inr (JObj mkvs)"
  shows "(\<forall>out. formatter (JObj kvs) = Inr out \<longrightarrow>
            (map_of mkvs ''temp'' = None \<longrightarrow>
               field2 out ''temperature'' ''current_c'' = Some (JFloat (fl (- 2731 / 10))))
          \<and> (map_of mkvs ''feels_like'' = None \<longrightarrow>
               field2 out ''temperature'' ''feels_like_c'' = Some (JFloat (fl (- 2731 / 10))))
          \<and> (map_of mkvs ''temp_min'' = None \<longrightarrow>
               field2 out ''temperature'' ''min_c'' = Some (JFloat (fl (- 2731 / 10))))
          \<and> (map_of mkvs ''temp_max'' = None \<longrightarrow>
               field2 out ''temperature'' ''max_c'' = Some (JFloat (fl (- 2731 / 10)))))
       \<and> ((\<exists>ws w. get_method (JObj kvs) ''weather'' (JArr [JObj []]) = Inr ws
                     \<and> getitem0 ws = Inr (JObj w))
           \<and> (\<exists>wn. get_method (JObj kvs) ''wind'' (JObj []) = Inr (JObj wn))
           \<and> (\<exists>sy. get_method (JObj kvs) ''sys'' (JObj []) = Inr (JObj sy))
           \<and> (\<exists>cl. get_method (JObj kvs) ''clouds'' (JObj []) = Inr (JObj cl))
           \<and> (map_of mkvs ''temp'' = None \<or> (\<exists>x. map_of mkvs ''temp'' = Some (JFloat x)))
           \<and> (map_of mkvs ''feels_like'' = None
                \<or> (\<exists>x. map_of mkvs ''feels_like'' = Some (JFloat x)))
           \<and> (map_of mkvs ''temp_min'' = None
                \<or> (\<exists>x. map_of mkvs ''temp_min'' = Some (JFloat x)))
           \<and> (map_of mkvs ''temp_max'' = None
                \<or> (\<exists>x. map_of mkvs ''temp_max'' = Some (JFloat x)))
           \<longrightarrow> (\<exists>out. formatter (JObj kvs) = Inr out))
       \<and> (\<forall>k. map_of mkvs k = None \<longrightarrow>
             temperature_field (JObj mkvs) k = Inr (JFloat (fl (- 2731 / 10))))
       \<and> convert_kelvin_to_celsius (JInt 0) = Inr (fl (- 2731 / 10))
       \<and> convert_kelvin_to_celsius (JFloat (fl 0)) = Inr (fl (- 2731 / 10))"
proof -
  have A: "(map_of mkvs ''temp'' = None \<longrightarrow>
               field2 out ''temperature'' ''current_c'' = Some (JFloat (fl (- 2731 / 10))))
          \<and> (map_of mkvs ''feels_like'' = None \<longrightarrow>
               field2 out ''temperature'' ''feels_like_c'' = Some (JFloat (fl (- 2731 / 10))))
          \<and> (map_of mkvs ''temp_min'' = None \<longrightarrow>
               field2 out ''temperature'' ''min_c'' = Some (JFloat (fl (- 2731 / 10))))
          \<and> (map_of mkvs ''temp_max'' = None \<longrightarrow>
               field2 out ''temperature'' ''max_c'' = Some (JFloat (fl (- 2731 / 10))))"
    if "formatter (JObj kvs) = Inr out" for out
  proof -
    from that have "formatter_body (JObj kvs) = Inr out"
      by (simp add: formatter_Inr)
    from formatter_body_parts [OF this] assms
    obtain t where t: "temperature_of (JObj mkvs) = Inr t" "field out ''temperature'' = Some t"
      by auto
    from temperature_of_parts [OF t(1)] obtain a b c d where
      f: "temperature_field (JObj mkvs) ''temp'' = Inr a"
         "temperature_field (JObj mkvs) ''feels_like'' = Inr b"
         "temperature_field (JObj mkvs) ''temp_min'' = Inr c"
         "temperature_field (JObj mkvs) ''temp_max'' = Inr d"
      and g: "field t ''current_c'' = Some a" "field t ''feels_like_c'' = Some b"
         "field t ''min_c'' = Some c" "field t ''max_c'' = Some d"
      by blast
    show ?thesis
      using f g t(2) by (auto simp: field2_def temperature_field_absent)
  qed
  have B: "\<exists>out. formatter (JObj kvs) = Inr out"
    if w: "\<exists>ws w. get_method (JObj kvs) ''weather'' (JArr [JObj []]) = Inr ws
                     \<and> getitem0 ws = Inr (JObj w)"
      and wn: "\<exists>wn. get_method (JObj kvs) ''wind'' (JObj []) = Inr (JObj wn)"
      and sy: "\<exists>sy. get_method (JObj kvs) ''sys'' (JObj []) = Inr (JObj sy)"
      and cl: "\<exists>cl. get_method (JObj kvs) ''clouds'' (JObj []) = Inr (JObj cl)"
      and t1: "map_of mkvs ''temp'' = None \<or> (\<exists>x. map_of mkvs ''temp'' = Some (JFloat x))"
      and t2: "map_of mkvs ''feels_like'' = None
                \<or> (\<exists>x. map_of mkvs ''feels_like'' = Some (JFloat x))"
      and t3: "map_of mkvs ''temp_min'' = None
                \<or> (\<exists>x. map_of mkvs ''temp_min'' = Some (JFloat x))"
      and t4: "map_of mkvs ''temp_max'' = None
                \<or> (\<exists>x. map_of mkvs ''temp_max'' = Some (JFloat x))"
  proof -
    from temperature_of_ok [OF t1 t2 t3 t4] obtain t
      where t: "temperature_of (JObj mkvs) = Inr t" ..
    from w obtain ws w' where w': "get_method (JObj kvs) ''weather'' (JArr [JObj []]) = Inr ws"
      "getitem0 ws = Inr (JObj w')" by blast
    from wn obtain wn' where wn': "get_method (JObj kvs) ''wind'' (JObj []) = Inr (JObj wn')" ..
    from sy obtain sy' where sy': "get_method (JObj kvs) ''sys'' (JObj []) = Inr (JObj sy')" ..
    from cl obtain cl' where cl': "get_method (JObj kvs) ''clouds'' (JObj []) = Inr (JObj cl')" ..
    from formatter_body_ok [OF w' assms wn' sy' cl' t]
    show ?thesis by (simp add: formatter_Inr)
  qed
  from A B temperature_field_absent convert_zero convert_float_zero
  show ?thesis by blast
qed

theorem formatter_absent_temperature_witness:
  "get_method (JObj [(''main'', JObj [(''humidity'', JInt 70)])]) ''main'' (JObj [])
     = Inr (JObj [(''humidity'', JInt 70)])
   \<and> map_of [(''humidity'', JInt 70)] ''temp'' = None
   \<and> map_of [(''humidity'', JInt 70)] ''feels_like'' = None
   \<and> map_of [(''humidity'', JInt 70)] ''temp_min'' = None
   \<and> map_of [(''humidity'', JInt 70)] ''temp_max'' = None
   \<and> (\<exists>out. formatter (JObj [(''main'', JObj [(''humidity'', JInt 70)])]) = Inr out
         \<and> field out ''humidity'' = Some (JInt 70)
         \<and> field2 out ''temperature'' ''current_c'' = Some (JFloat (fl (- 2731 / 10)))
         \<and> field2 out ''temperature'' ''feels_like_c'' = Some (JFloat (fl (- 2731 / 10)))
         \<and> field2 out ''temperature'' ''min_c'' = Some (JFloat (fl (- 2731 / 10)))
         \<and> field2 out ''temperature'' ''max_c'' = Some (JFloat (fl (- 2731 / 10))))
   \<and> temperature_field (JObj [(''humidity'', JInt 70)]) ''temp''
     = Inr (JFloat (fl (- 2731 / 10)))"
proof -
  let ?kvs = "[(''main'', JObj [(''humidity'', JInt 70)])]"
  let ?mkvs = "[(''humidity'', JInt 70)]"
  have m: "get_method (JObj ?kvs) ''main'' (JObj []) = Inr (JObj ?mkvs)" by simp
  note main = formatter_absent_temperature [OF m]
  have pre: "(\<exists>ws w. get_method (JObj ?kvs) ''weather'' (JArr [JObj []]) = Inr ws
                     \<and> getitem0 ws = Inr (JObj w))"
    "\<exists>wn. get_method (JObj ?kvs) ''wind'' (JObj []) = Inr (JObj wn)"
    "\<exists>sy. get_method (JObj ?kvs) ''sys'' (JObj []) = Inr (JObj sy)"
    "\<exists>cl. get_method (JObj ?kvs) ''clouds'' (JObj []) = Inr (JObj cl)"
    by simp_all
  have absent: "map_of ?mkvs ''temp'' = None" "map_of ?mkvs ''feels_like'' = None"
    "map_of ?mkvs ''temp_min'' = None" "map_of ?mkvs ''temp_max'' = None"
    by simp_all
  from main pre absent obtain out where out: "formatter (JObj ?kvs) = Inr out"
    by blast
  from out have "formatter_body (JObj ?kvs) = Inr out" by (simp add: formatter_Inr)
  then have h: "field out ''humidity'' = Some (JInt 70)"
    unfolding formatter_body_def ebind_eq_Inr by (auto simp: field_def)
  from main out absent h m show ?thesis by blast
qed

section \<open>A payload without wind\<close>

text \<open>
  C5, as stated: every payload without the top-level \<open>wind\<close> key is formatted successfully,
  with \<open>wind = {speed_mps: null, direction_deg: null, gust_mps: null}\<close>. The payload
  \<open>{"main": null}\<close> has no \<open>wind\<close> key and is not formatted: the formatter raises its
  formatting error, as it does for every malformed sub-object.
\<close>

theorem formatter_missing_wind_counterexample:
  "map_of [(''main'', JNull)] ''wind'' = None
   \<and> formatter (JObj [(''main'', JNull)])
     = Inl (HTTPException 500
         (''Data formatting error: '' @ quoted ''NoneType'' @ '' object has no attribute '' @ quoted ''get''))"
  by (simp add: formatter_def formatter_body_def formatter_handler_def conditions_of_def
      temperature_of_def temperature_field_def)

text \<open>
  C5, amended: on a payload object without the top-level \<open>wind\<close> key the formatter does
  exactly what it does on the same payload with an empty \<open>wind\<close> object added, so the
  missing key is never what makes it fail; and whenever it succeeds on such a payload the
  result has \<open>wind = {speed_mps: null, direction_deg: null, gust_mps: null}\<close>.
\<close>

theorem formatter_missing_wind:
  assumes "map_of kvs ''wind'' = None"
  shows "formatter (JObj kvs) = formatter (JObj (kvs @ [(''wind'', JObj [])]))
       \<and> (\<forall>out. formatter (JObj kvs) = Inr out \<longrightarrow>
            field out ''wind''
            = Some (JObj [(''speed_mps'', JNull), (''direction_deg'', JNull), (''gust_mps'', JNull)]))"
proof -
  have eq: "formatter_body (JObj kvs) = formatter_body (JObj (kvs @ [(''wind'', JObj [])]))"
    unfolding formatter_body_def
    by (simp add: get_method_append_wind [OF assms] get_method_absent [OF assms]
        del: get_method.simps)
  have "field out ''wind''
        = Some (JObj [(''speed_mps'', JNull), (''direction_deg'', JNull), (''gust_mps'', JNull)])"
    if "formatter (JObj kvs) = Inr out" for out
  proof -
    from that have "formatter_body (JObj kvs) = Inr out" by (simp add: formatter_Inr)
    from formatter_body_parts [OF this] assms show ?thesis
      by (auto simp: wind_of_empty)
  qed
  with eq show ?thesis by (simp add: formatter_def)
qed

theorem formatter_missing_wind_witness:
  "map_of ([] :: (string \<times> json) list) ''wind'' = None
   \<and> formatter (JObj []) = formatter (JObj ([] @ [(''wind'', JObj [])]))
   \<and> (\<exists>out. formatter (JObj []) = Inr out
         \<and> field out ''wind''
           = Some (JObj [(''speed_mps'', JNull), (''direction_deg'', JNull), (''gust_mps'', JNull)]))"
proof -
  obtain out where out: "formatter (JObj []) = Inr out"
    using formatter_empty_payload by blast
  have m: "map_of ([] :: (string \<times> json) list) ''wind'' = None" by simp
  from formatter_missing_wind [OF m] out m show ?thesis by blast
qed

section \<open>The first geocoding result\<close>

text \<open>
  C6. When the \<open>results\<close> array of the geocoding response is not empty and its first element
  is an object with \<open>lat\<close> and \<open>lon\<close>, the geocoding client returns that latitude and that
  longitude, whatever the later results \<open>rs\<close> are.
\<close>

theorem first_result_only:
  assumes "geo city = Inr (JObj kvs)"
      and "map_of kvs ''results'' = Some (JArr (JObj fs # rs))"
      and "map_of fs ''lat'' = Some lat"
      and "map_of fs ''lon'' = Some lon"
  shows "convert_cityname_to_coordinate geo city = Inr (lat, lon)"
  using assms
  by (simp add: convert_cityname_to_coordinate_def geocoding_body_def not_found_def)

theorem first_result_only_witness:
  "convert_cityname_to_coordinate
     (\<lambda>c. Inr (JObj [(''results'',
        JArr [JObj [(''lat'', JInt 1), (''lon'', JInt 2)],
              JObj [(''lat'', JInt 3), (''lon'', JInt 4)]])])) ''Springfield''
   = Inr (JInt 1, JInt 2)"
  using first_result_only [of "\<lambda>c. Inr (JObj [(''results'',
        JArr [JObj [(''lat'', JInt 1), (''lon'', JInt 2)],
              JObj [(''lat'', JInt 3), (''lon'', JInt 4)]])])" "''Springfield''"
      "[(''results'',
        JArr [JObj [(''lat'', JInt 1), (''lon'', JInt 2)],
              JObj [(''lat'', JInt 3), (''lon'', JInt 4)]])]"
      "[(''lat'', JInt 1), (''lon'', JInt 2)]" "[JObj [(''lat'', JInt 3), (''lon'', JInt 4)]]"
      "JInt 1" "JInt 2"]
  by simp

section \<open>Failures of the endpoint\<close>

text \<open>
  C7, as stated: every failure of the endpoint \<open>/weather\<close>, of any kind, is answered with
  status 500 and the body \<open>{"detail": "<message>"}\<close>. A request without the parameter \<open>city\<close>
  is answered 422; and when the weather provider sends an infinite temperature, the
  function returns a result that cannot be written as JSON, and the answer is status 500
  with the plain text \<open>Internal Server Error\<close>, not a \<open>detail\<close> body.
\<close>

theorem handler_failures_are_500_counterexample:
  "weather_endpoint (\<lambda>city. Inl (RequestException ''unreachable''))
     (\<lambda>lat lon. Inl (RequestException ''unreachable'')) None
   = Response 422 ValidationBody
   \<and> weather_endpoint
       (\<lambda>city. Inr (JObj [(''results'', JArr [JObj [(''lat'', JInt 1), (''lon'', JInt 2)]])]))
       (\<lambda>lat lon. Inr (JObj [(''main'', JObj [(''temp'', JFloat PInf)])])) (Some ''Oslo'')
     = Response 500 (TextBody ''Internal Server Error'')"
proof -
  have t: "temperature_field (JObj [(''temp'', JFloat PInf)]) ''temp'' = Inr (JFloat PInf)"
    by (simp add: temperature_field_def convert_unfold py_round_def)
  show ?thesis
    by (simp add: weather_endpoint_def weather_def weather_body_def step_def assign_def
        convert_cityname_to_coordinate_def geocoding_body_def not_found_def
        weather_info_def formatter_def formatter_body_def conditions_of_def
        temperature_of_def t temperature_field_absent wind_of_def)
qed

text \<open>
  C7, amended: a request without \<open>city\<close> is answered 422. A request with a city is answered
  with status 200 or 500, whatever goes wrong. Every failure that the function raises, with
  whatever HTTP exception \<open>h\<close>, is answered with status 500 and the body
  \<open>{"detail": <detail of h>}\<close>; the branch for unexpected errors is never taken, since the
  three steps raise HTTP exceptions only. In particular, when the request to the geocoding
  provider fails (transport failure, timeout, error status), the answer is status 500 with
  the detail \<open>Geocoding API error: <message>. Check GEOCODING_API_KEY.\<close>, which is never the
  detail that the weather client gives to a failed request of its own.
\<close>

theorem handler_failures_are_500:
  "weather_endpoint geo wx None = Response 422 ValidationBody
   \<and> (status (weather_endpoint geo wx (Some city)) = 200
        \<or> status (weather_endpoint geo wx (Some city)) = 500)
   \<and> (\<forall>h. weather geo wx city = Inl h \<longrightarrow>
         weather_endpoint geo wx (Some city)
         = Response 500 (JsonBody (JObj [(''detail'', JStr (detail h))])))
   \<and> (\<forall>e. weather_body geo wx city \<noteq> Inl (Py e))
   \<and> (\<forall>m. geo city = Inl (RequestException m) \<longrightarrow>
         weather_endpoint geo wx (Some city)
         = Response 500 (JsonBody (JObj [(''detail'',
             JStr (''Geocoding API error: '' @ m @ ''. Check GEOCODING_API_KEY.''))]))
         \<and> (\<forall>m'. ''Geocoding API error: '' @ m @ ''. Check GEOCODING_API_KEY.''
                 \<noteq> detail (weather_handler (RequestException m'))))"
proof -
  have 0: "weather_endpoint geo wx None = Response 422 ValidationBody"
    by (simp add: weather_endpoint_def)
  have 2: "weather_endpoint geo wx (Some city)
         = Response 500 (JsonBody (JObj [(''detail'',
             JStr (''Geocoding API error: '' @ m @ ''. Check GEOCODING_API_KEY.''))]))"
    if "geo city = Inl (RequestException m)" for m
  proof -
    from that have "convert_cityname_to_coordinate geo city
      = Inl (HTTPException 500 (''Geocoding API error: '' @ m @ ''. Check GEOCODING_API_KEY.''))"
      by (simp add: convert_cityname_to_coordinate_def geocoding_body_def)
    from weather_endpoint_failure [OF weather_geocoding_failure [OF this]]
    show ?thesis by simp
  qed
  have 3: "''Geocoding API error: '' @ m @ ''. Check GEOCODING_API_KEY.''
                \<noteq> detail (weather_handler (RequestException m'))" for m m'
    by simp
  from 0 weather_endpoint_status weather_endpoint_failure weather_body_no_py 2 3
  show ?thesis by blast
qed

theorem handler_failures_are_500_witness:
  "weather (\<lambda>c. Inl (RequestException ''Read timed out'')) (\<lambda>lat lon. Inr JNull) ''Paris''
     = Inl (HTTPException 500 ''Geocoding API error: Read timed out. Check GEOCODING_API_KEY.'')
   \<and> weather_endpoint (\<lambda>c. Inl (RequestException ''Read timed out'')) (\<lambda>lat lon. Inr JNull)
        (Some ''Paris'')
     = Response 500 (JsonBody (JObj [(''detail'',
          JStr ''Geocoding API error: Read timed out. Check GEOCODING_API_KEY.'')]))
   \<and> ''Geocoding API error: Read timed out. Check GEOCODING_API_KEY.''
     \<noteq> detail (weather_handler (RequestException ''Read timed out''))"
proof -
  have w: "weather (\<lambda>c. Inl (RequestException ''Read timed out'')) (\<lambda>lat lon. Inr JNull) ''Paris''
     = Inl (HTTPException 500 ''Geocoding API error: Read timed out. Check GEOCODING_API_KEY.'')"
    by (simp add: weather_def weather_body_def step_def convert_cityname_to_coordinate_def
        geocoding_body_def)
  from handler_failures_are_500 [of "\<lambda>c. Inl (RequestException ''Read timed out'')"
      "\<lambda>lat lon. Inr JNull" "''Paris''"] w
  show ?thesis by simp
qed

section \<open>A request for London\<close>

text \<open>
  C8. For the city \<open>London\<close>, with a geocoding provider that answers
  \<open>{results: [{lat: 51.51, lon: -0.13}]}\<close> and a weather provider that answers, for these
  coordinates, the payload with \<open>main.temp = 283.15\<close>, the weather \<open>Clouds\<close>, the name
  \<open>London\<close> and the country \<open>GB\<close>, the endpoint succeeds, and its result has
  \<open>temperature.current_c = 10.0\<close>, \<open>city = "London"\<close> and \<open>input_city = "London"\<close>.
\<close>

theorem london_end_to_end:
  "\<exists>out.
     weather
       (\<lambda>city. if city = ''London''
          then Inr (JObj [(''results'',
                 JArr [JObj [(''lat'', JFloat (fl (5151 / 100))),
                             (''lon'', JFloat (fl (- 13 / 100)))]])])
          else Inl (RequestException ''no such request''))
       (\<lambda>lat lon. if lat = JFloat (fl (5151 / 100)) \<and> lon = JFloat (fl (- 13 / 100))
          then Inr (JObj
            [(''main'', JObj [(''temp'', JFloat (fl (28315 / 100))),
                              (''feels_like'', JFloat (fl 282)),
                              (''temp_min'', JFloat (fl 281)),
                              (''temp_max'', JFloat (fl 285)),
                              (''humidity'', JInt 70), (''pressure'', JInt 1012)]),
             (''weather'', JArr [JObj [(''main'', JStr ''Clouds''),
                                       (''description'', JStr ''overcast clouds''),
                                       (''icon'', JStr ''04d'')]]),
             (''wind'', JObj [(''speed'', JFloat (fl (31 / 10))), (''deg'', JInt 200)]),
             (''name'', JStr ''London''),
             (''sys'', JObj [(''country'', JStr ''GB'')]),
             (''coord'', JObj [(''lat'', JFloat (fl (5151 / 100))),
                               (''lon'', JFloat (fl (- 13 / 100)))]),
             (''visibility'', JInt 10000),
             (''clouds'', JObj [(''all'', JInt 90)]),
             (''dt'', JInt 1700000000),
             (''timezone'', JInt 0)])
          else Inl (RequestException ''no such request''))
       ''London''
     = Inr out
     \<and> field2 out ''temperature'' ''current_c'' = Some (JFloat (fl 10))
     \<and> field out ''city'' = Some (JStr ''London'')
     \<and> field out ''input_city'' = Some (JStr ''London'')"
proof -
  obtain b where b: "convert_kelvin_to_celsius (JFloat (fl 282)) = Inr b"
    using convert_float_total by blast
  obtain c where c: "convert_kelvin_to_celsius (JFloat (fl 281)) = Inr c"
    using convert_float_total by blast
  obtain d where d: "convert_kelvin_to_celsius (JFloat (fl 285)) = Inr d"
    using convert_float_total by blast
  show ?thesis
    using convert_28315 b c d
    by (simp add: weather_def weather_body_def step_def assign_def
        convert_cityname_to_coordinate_def geocoding_body_def not_found_def
        weather_info_def formatter_def formatter_body_def conditions_of_def
        temperature_of_def temperature_field_def wind_of_def field_def field2_def)
qed

section \<open>Null temperature fields\<close>

text \<open>
  C9. The default \<open>0\<close> of a temperature field is for an absent key only. When the \<open>main\<close>
  sub-object of a payload holds \<open>null\<close> under \<open>temp\<close>, \<open>feels_like\<close>, \<open>temp_min\<close> or
  \<open>temp_max\<close>, the formatter fails with an HTTP exception of status 500 whose detail starts
  with \<open>Data formatting error: \<close>, and the endpoint fails with the same HTTP exception on
  every request that receives this payload.
\<close>

theorem formatter_null_temperature:
  assumes "map_of kvs ''main'' = Some (JObj mkvs)"
      and "map_of mkvs ''temp'' = Some JNull \<or> map_of mkvs ''feels_like'' = Some JNull
         \<or> map_of mkvs ''temp_min'' = Some JNull \<or> map_of mkvs ''temp_max'' = Some JNull"
  shows "\<exists>m. formatter (JObj kvs) = Inl (HTTPException 500 (''Data formatting error: '' @ m))
          \<and> (\<forall>geo wx city lat lon.
                convert_cityname_to_coordinate geo city = Inr (lat, lon)
                \<and> wx lat lon = Inr (JObj kvs) \<longrightarrow>
                weather geo wx city
                = Inl (HTTPException 500 (''Data formatting error: '' @ m)))"
proof -
  have "\<exists>e. formatter_body (JObj kvs) = Inl e"
  proof (cases "formatter_body (JObj kvs)")
    case (Inl e)
    then show ?thesis by blast
  next
    case (Inr out)
    from formatter_body_parts [OF this] assms(1)
    obtain t where "temperature_of (JObj mkvs) = Inr t" by auto
    from temperature_of_parts [OF this] obtain a b c d where
      "temperature_field (JObj mkvs) ''temp'' = Inr a"
      "temperature_field (JObj mkvs) ''feels_like'' = Inr b"
      "temperature_field (JObj mkvs) ''temp_min'' = Inr c"
      "temperature_field (JObj mkvs) ''temp_max'' = Inr d"
      by blast
    with assms(2) show ?thesis by (auto simp: temperature_field_null)
  qed
  then obtain e where e: "formatter_body (JObj kvs) = Inl e" ..
  from formatter_Inl [OF this]
  have f: "formatter (JObj kvs)
           = Inl (HTTPException 500 (''Data formatting error: '' @ str_exn e))" .
  have "weather geo wx city
        = Inl (HTTPException 500 (''Data formatting error: '' @ str_exn e))"
    if "convert_cityname_to_coordinate geo city = Inr (lat, lon)" "wx lat lon = Inr (JObj kvs)"
    for geo wx city lat lon
    using weather_formatter_failure [of geo city lat lon wx "JObj kvs", OF that f] by simp
  with f show ?thesis by blast
qed

theorem formatter_null_temperature_witness:
  "map_of [(''main'', JObj [(''temp'', JNull)])] ''main'' = Some (JObj [(''temp'', JNull)])
   \<and> map_of [(''temp'', JNull)] ''temp'' = Some JNull
   \<and> formatter (JObj [(''main'', JObj [(''temp'', JNull)])])
     = Inl (HTTPException 500
         (''Data formatting error: unsupported operand type(s) for -: '' @ quoted ''NoneType''
            @ '' and '' @ quoted ''float''))
   \<and> weather (\<lambda>c. Inr (JObj [(''results'', JArr [JObj [(''lat'', JInt 1), (''lon'', JInt 2)]])]))
       (\<lambda>lat lon. Inr (JObj [(''main'', JObj [(''temp'', JNull)])])) ''Oslo''
     = Inl (HTTPException 500
         (''Data formatting error: unsupported operand type(s) for -: '' @ quoted ''NoneType''
            @ '' and '' @ quoted ''float''))"
proof -
  let ?kvs = "[(''main'', JObj [(''temp'', JNull)])]"
  let ?geo = "\<lambda>c :: string. (Inr (JObj [(''results'',
                 JArr [JObj [(''lat'', JInt 1), (''lon'', JInt 2)]])]) :: pyexn + json)"
  let ?wx = "\<lambda>(lat :: json) (lon :: json). (Inr (JObj ?kvs) :: pyexn + json)"
  have 1: "map_of ?kvs ''main'' = Some (JObj [(''temp'', JNull)])" by simp
  have 2: "map_of [(''temp'', JNull)] ''temp'' = Some JNull" by simp
  have 3: "formatter (JObj ?kvs)
     = Inl (HTTPException 500
         (''Data formatting error: '' @ (''unsupported operand type(s) for -: '' @ quoted ''NoneType''
            @ '' and '' @ quoted ''float'')))"
    by (simp add: formatter_def formatter_body_def formatter_handler_def conditions_of_def
        temperature_of_def temperature_field_null)
  have 4: "convert_cityname_to_coordinate ?geo ''Oslo'' = Inr (JInt 1, JInt 2)"
    by (simp add: convert_cityname_to_coordinate_def geocoding_body_def not_found_def)
  from formatter_null_temperature [of ?kvs "[(''temp'', JNull)]"] 1 2
  obtain m where m: "formatter (JObj ?kvs) = Inl (HTTPException 500 (''Data formatting error: '' @ m))"
    and w: "\<And>geo wx city lat lon. convert_cityname_to_coordinate geo city = Inr (lat, lon)
            \<Longrightarrow> wx lat lon = Inr (JObj ?kvs) \<Longrightarrow>
            weather geo wx city
            = Inl (HTTPException 500 (''Data formatting error: '' @ m))"
    by blast
  from m 3 have "m = ''unsupported operand type(s) for -: '' @ quoted ''NoneType''
            @ '' and '' @ quoted ''float''"
    by (simp only: sum.inject http_exception.inject same_append_eq)
  with w [of ?geo "''Oslo''" "JInt 1" "JInt 2" ?wx, OF 4] 1 2 3 show ?thesis by simp
qed

section \<open>A first result without coordinates\<close>

text \<open>
  C10. When the \<open>results\<close> array of the geocoding response is not empty and its first element
  is an object that lacks \<open>lon\<close> or \<open>lat\<close>, the geocoding client raises a \<open>KeyError\<close> for
  the first missing key (\<open>lon\<close> is read first), not the not-found error and not an error of
  the request; the generic handler reports it, and the endpoint fails with status 500 and a
  detail that is just the name of that key, between single quotes.
\<close>

theorem missing_coordinate_key:
  assumes "geo city = Inr (JObj kvs)"
      and "map_of kvs ''results'' = Some (JArr (JObj fs # rs))"
      and "map_of fs ''lon'' = None \<or> map_of fs ''lat'' = None"
  shows "geocoding_body geo city
         = Inl (KeyError (quoted (if map_of fs ''lon'' = None then ''lon'' else ''lat'')))
       \<and> (\<forall>m. geocoding_body geo city \<noteq> Inl (ValueError m)
             \<and> geocoding_body geo city \<noteq> Inl (RequestException m))
       \<and> weather geo wx city
         = Inl (HTTPException 500 (quoted (if map_of fs ''lon'' = None then ''lon'' else ''lat'')))"
proof -
  have b: "geocoding_body geo city
         = Inl (KeyError (quoted (if map_of fs ''lon'' = None then ''lon'' else ''lat'')))"
    using assms by (auto simp: geocoding_body_def not_found_def)
  then have "convert_cityname_to_coordinate geo city
         = Inl (HTTPException 500 (quoted (if map_of fs ''lon'' = None then ''lon'' else ''lat'')))"
    by (simp add: convert_cityname_to_coordinate_def)
  from weather_geocoding_failure [OF this] b show ?thesis by simp
qed

theorem missing_coordinate_key_witness:
  "map_of [(''lat'', JInt 1)] ''lon'' = None
   \<and> weather (\<lambda>c. Inr (JObj [(''results'', JArr [JObj [(''lat'', JInt 1)]])]))
       (\<lambda>lat lon. Inr JNull) ''Oslo''
     = Inl (HTTPException 500 (quoted ''lon''))"
  using missing_coordinate_key [of "\<lambda>c. Inr (JObj [(''results'', JArr [JObj [(''lat'', JInt 1)]])])"
      "''Oslo''" "[(''results'', JArr [JObj [(''lat'', JInt 1)]])]" "[(''lat'', JInt 1)]" "[]"
      "\<lambda>lat lon. Inr JNull"]
  by simp

end
